theory Spec2Isabelle
  imports Complex_Main
begin

section \<open>The compass component: data model\<close>

text \<open>
  The component \<^verbatim>\<open>src/components/Compass.vue\<close> keeps its state in module-level
  variables and Vue refs, and changes it from two kinds of callbacks: position samples
  (geolocation) and orientation samples (the \<^verbatim>\<open>deviceorientation\<close> event).

  JavaScript numbers are modelled as \<^typ>\<open>real\<close>: the arithmetic of the source is
  read as exact arithmetic, \<^verbatim>\<open>Math.sin\<close>, \<^verbatim>\<open>Math.cos\<close> and \<^verbatim>\<open>Math.sqrt\<close> as the
  real functions. Rounding, signed zeros, infinities and NaN are therefore outside the
  model. A value that may be \<^verbatim>\<open>undefined\<close> or \<^verbatim>\<open>null\<close> is an \<^typ>\<open>real option\<close>; the
  source never tells the two apart, so \<^term>\<open>None\<close> stands for both.
\<close>

text \<open>
  The fields of a \<^verbatim>\<open>DeviceOrientationEvent\<close> that \<^verbatim>\<open>updateOrientation\<close> reads.
  \<^verbatim>\<open>webkitCompassHeading\<close> is read through \<^verbatim>\<open>(event as any)\<close> and is absent on most
  platforms.
\<close>

record orientation_event =
  absolute :: bool
  alpha :: "real option"
  webkitCompassHeading :: "real option"

text \<open>
  The state of the component. \<open>u_lat\<close> and \<open>u_lon\<close> are the source's \<^verbatim>\<open>_lat\<close> and
  \<^verbatim>\<open>_lon\<close> (an Isabelle name cannot start with an underscore). \<open>listening\<close> records
  whether \<^verbatim>\<open>updateOrientation\<close> is registered for \<^verbatim>\<open>deviceorientation\<close> on
  \<^verbatim>\<open>window\<close>. The debug output of \<^verbatim>\<open>dump\<close> and \<^verbatim>\<open>print\<close> goes to a DOM node that
  nothing reads back, and is left out.
\<close>

record state =
  initialized :: bool
  u_lat :: "real option"
  u_lon :: "real option"
  name :: string
  distance :: string
  compassAvailable :: bool
  arrowRotation :: real
  listening :: bool

text \<open>The initialisers of the module-level declarations.\<close>

definition init_state :: state where
  "init_state =
     \<lparr> initialized = False, u_lat = None, u_lon = None,
       name = ''Backyard Builder'', distance = '''',
       compassAvailable = False, arrowRotation = 0, listening = False \<rparr>"

definition bbLat :: real where
  "bbLat = 37.551447"

definition bbLon :: real where
  "bbLon = 127.047016"

section \<open>Number primitives of the language\<close>

text \<open>
  JavaScript's truthiness of a value that is a number, \<^verbatim>\<open>undefined\<close> or \<^verbatim>\<open>null\<close>:
  only a number other than zero is truthy.
\<close>

definition truthy :: "real option \<Rightarrow> bool" where
  "truthy v = (case v of None \<Rightarrow> False | Some x \<Rightarrow> x \<noteq> 0)"

text \<open>
  \<^verbatim>\<open>Math.atan2(y, x)\<close> on real arguments: the angle of the point \<open>(x, y)\<close> in
  \<open>(-\<pi>, \<pi>]\<close>, and 0 at the origin.
\<close>

definition atan2 :: "real \<Rightarrow> real \<Rightarrow> real" where
  "atan2 y x =
     (if 0 < x then arctan (y / x)
      else if x < 0 then (if 0 \<le> y then arctan (y / x) + pi else arctan (y / x) - pi)
      else if 0 < y then pi / 2
      else if y < 0 then - (pi / 2)
      else 0)"

text \<open>
  The remainder operator \<^verbatim>\<open>%\<close>: the quotient is truncated towards zero, so the result
  has the sign of the dividend. The source divides by 360 only; a zero divisor (NaN in
  the language) is outside the model.
\<close>

definition js_rem :: "real \<Rightarrow> real \<Rightarrow> real" where
  "js_rem x y =
     x - y * of_int (if 0 \<le> x / y then \<lfloor>x / y\<rfloor> else \<lceil>x / y\<rceil>)"

text \<open>Decimal digits of a natural number, as \<^verbatim>\<open>toFixed\<close> prints its integer.\<close>

fun decimal :: "nat \<Rightarrow> string" where
  "decimal n =
     (if n < 10 then [''0123456789'' ! n]
      else decimal (n div 10) @ [''0123456789'' ! (n mod 10)])"

text \<open>
  \<^verbatim>\<open>x.toFixed(0)\<close> for \<open>\<bar>x\<bar> < 10\<^sup>2\<^sup>1\<close>: a minus sign when \<open>x < 0\<close>, then the integer
  nearest to \<open>\<bar>x\<bar>\<close>, the larger one on a tie. At \<open>10\<^sup>2\<^sup>1\<close> and above the language
  switches to exponent notation, which is not modelled; the distance of
  \<open>updateDistance\<close> is at most \<open>6371 \<pi>\<close> (lemma \<open>haversine_bounds\<close>).
\<close>

definition toFixed0 :: "real \<Rightarrow> string" where
  "toFixed0 x =
     (if x < 0 then ''-'' else '''') @ decimal (nat \<lfloor>\<bar>x\<bar> + 1 / 2\<rfloor>)"

section \<open>Geolocation\<close>

text \<open>
  The distance computed in the body of \<^verbatim>\<open>updateDistance\<close>, with the observer
  \<open>(lat, lon)\<close> and the target \<open>(tLat, tLon)\<close> as parameters; the source fixes the
  target to \<open>(bbLat, bbLon)\<close>.

  In exact arithmetic the sum \<open>a\<close> stays in \<open>[0, 1]\<close> (lemma \<open>haversine_a_range\<close>), so
  both square roots are of non-negative numbers. The doubles of the source do not keep
  that bound: a few centimetres from the antipode of the target the rounded sum is
  \<^verbatim>\<open>1.0000000000000002\<close>, \<^verbatim>\<open>Math.sqrt(1 - a)\<close> is NaN and the text becomes \<^verbatim>\<open>NaN km\<close>. The
  definitions below say nothing about the source there; they are used at positions where
  \<open>a\<close> is far from 1.
\<close>

definition haversine_a :: "real \<Rightarrow> real \<Rightarrow> real \<Rightarrow> real \<Rightarrow> real" where
  "haversine_a lat lon tLat tLon =
     (let dLat = (tLat - lat) * pi / 180;
          dLon = (tLon - lon) * pi / 180
      in sin (dLat / 2) * sin (dLat / 2) +
         cos (lat * pi / 180) * cos (tLat * pi / 180) *
         sin (dLon / 2) * sin (dLon / 2))"

definition haversine :: "real \<Rightarrow> real \<Rightarrow> real \<Rightarrow> real \<Rightarrow> real" where
  "haversine lat lon tLat tLon =
     (let earthRadiusKm = 6371;
          a = haversine_a lat lon tLat tLon;
          c = 2 * atan2 (sqrt a) (sqrt (1 - a))
      in earthRadiusKm * c)"

definition updateDistance :: "state \<Rightarrow> state" where
  "updateDistance s =
     (case (u_lat s, u_lon s) of
        (Some lat, Some lon) \<Rightarrow>
          s\<lparr>distance := toFixed0 (haversine lat lon bbLat bbLon) @ '' km''\<rparr>
      | _ \<Rightarrow> s)"

text \<open>
  The success callback of \<^verbatim>\<open>getCurrentPosition\<close> and of \<^verbatim>\<open>watchPosition\<close>: store
  the coordinates, then \<^verbatim>\<open>updateDistance()\<close>. The first callback also resolves the
  promise of \<^verbatim>\<open>initGeolocation\<close> and opens the position watch; neither touches the
  state below (the listener registration that follows the promise is \<open>subscribe\<close>).
\<close>

definition onPosition :: "real \<Rightarrow> real \<Rightarrow> state \<Rightarrow> state" where
  "onPosition latitude longitude s =
     updateDistance (s\<lparr>u_lat := Some latitude, u_lon := Some longitude\<rparr>)"

section \<open>Orientation handling\<close>

text \<open>
  The heading \<^verbatim>\<open>_alpha\<close> that \<^verbatim>\<open>updateOrientation\<close> settles on: two assignments in
  sequence, the second one after the first.
\<close>

definition heading_alpha :: "orientation_event \<Rightarrow> real option" where
  "heading_alpha e =
     (let a0 = None;
          a1 = (if truthy (webkitCompassHeading e) then webkitCompassHeading e else a0);
          a2 = (if absolute e \<and> alpha e \<noteq> None then alpha e else a1)
      in a2)"

text \<open>Steps 1 to 3: the bearing from north of the target, seen from \<open>(lat, lon)\<close>.\<close>

definition bearingFromNorth :: "real \<Rightarrow> real \<Rightarrow> real" where
  "bearingFromNorth lat lon =
     (let lat1Rad = lat * pi / 180;
          lat2Rad = bbLat * pi / 180;
          deltaLonRad = (bbLon - lon) * pi / 180;
          y = sin deltaLonRad * cos lat2Rad;
          x = cos lat1Rad * sin lat2Rad - sin lat1Rad * cos lat2Rad * cos deltaLonRad;
          b = atan2 y x * 180 / pi
      in js_rem (b + 360) 360)"

text \<open>Steps 4 and 5: subtract the heading, then one wrap in each direction.\<close>

definition relativeBearing :: "real \<Rightarrow> real \<Rightarrow> real" where
  "relativeBearing b h =
     (let r0 = b - h;
          r1 = (if r0 > 180 then r0 - 360 else r0);
          r2 = (if r1 < - 180 then r1 + 360 else r1)
      in r2)"

definition updateOrientation :: "orientation_event \<Rightarrow> state \<Rightarrow> state" where
  "updateOrientation e s =
     (case heading_alpha e of
        None \<Rightarrow> s\<lparr>compassAvailable := False, listening := False\<rparr>
      | Some a \<Rightarrow>
          (case (u_lat s, u_lon s) of
             (Some lat, Some lon) \<Rightarrow>
               s\<lparr>compassAvailable := True,
                 arrowRotation := relativeBearing (bearingFromNorth lat lon) a\<rparr>
           | _ \<Rightarrow> s))"

text \<open>
  The second component file of the repository has an earlier form of the handler: it
  never reads \<^verbatim>\<open>webkitCompassHeading\<close> and takes \<^verbatim>\<open>event.alpha\<close> as the heading.
\<close>

definition updateOrientation_alpha :: "orientation_event \<Rightarrow> state \<Rightarrow> state" where
  "updateOrientation_alpha e s =
     (if \<not> absolute e \<or> alpha e = None
      then s\<lparr>compassAvailable := False, listening := False\<rparr>
      else
        (case (u_lat s, u_lon s) of
           (Some lat, Some lon) \<Rightarrow>
             s\<lparr>compassAvailable := True,
               arrowRotation := relativeBearing (bearingFromNorth lat lon) (the (alpha e))\<rparr>
         | _ \<Rightarrow> s))"

text \<open>
  \<^verbatim>\<open>addEventListener\<close> in \<^verbatim>\<open>startOrientationTracking\<close> registers the handler, and the
  browser calls a listener only while it is registered: a sample dispatched after
  \<^verbatim>\<open>removeEventListener\<close> does not reach it. The handler \<open>h\<close> is
  \<open>updateOrientation\<close> or \<open>updateOrientation_alpha\<close>.
\<close>

definition subscribe :: "state \<Rightarrow> state" where
  "subscribe s = s\<lparr>listening := True\<rparr>"

definition dispatchOrientation ::
  "(orientation_event \<Rightarrow> state \<Rightarrow> state) \<Rightarrow> orientation_event \<Rightarrow> state \<Rightarrow> state" where
  "dispatchOrientation h e s = (if listening s then h e s else s)"

fun dispatchAll ::
  "(orientation_event \<Rightarrow> state \<Rightarrow> state) \<Rightarrow> orientation_event list \<Rightarrow> state \<Rightarrow> state" where
  "dispatchAll h [] s = s"
| "dispatchAll h (e # es) s = dispatchAll h es (dispatchOrientation h e s)"

text \<open>
  The remainder of the mathematical floor division by 360, in which the specification
  states the round trip of the relative rotation.
\<close>

definition mod360 :: "real \<Rightarrow> real" where
  "mod360 x = x - 360 * of_int \<lfloor>x / 360\<rfloor>"

section \<open>Facts about the primitives\<close>

lemma atan2_bounds: "- pi < atan2 y x \<and> atan2 y x \<le> pi"
proof -
  have b: "- (pi / 2) < arctan (y / x)" "arctan (y / x) < pi / 2"
    by (rule arctan_lbound, rule arctan_ubound)
  have neg: "x < 0 \<Longrightarrow> 0 \<le> y \<Longrightarrow> arctan (y / x) \<le> 0"
    by (simp add: divide_nonneg_neg)
  have pos: "x < 0 \<Longrightarrow> y < 0 \<Longrightarrow> 0 < arctan (y / x)"
    by (simp add: divide_neg_neg)
  show ?thesis
    using b neg pos pi_gt_zero by (auto simp: atan2_def)
qed

lemma atan2_nonneg:
  assumes "0 \<le> y"
  shows "0 \<le> atan2 y x"
proof -
  have "0 < x \<Longrightarrow> 0 \<le> arctan (y / x)" using assms by simp
  moreover have "x < 0 \<Longrightarrow> 0 \<le> arctan (y / x) + pi"
    using arctan_lbound [of "y / x"] pi_gt_zero by linarith
  moreover have "0 \<le> pi / 2" by simp
  ultimately show ?thesis using assms by (simp add: atan2_def)
qed

lemma atan2_quadrant:
  assumes "0 \<le> y" and "0 \<le> x"
  shows "atan2 y x \<le> pi / 2"
proof -
  have "arctan (y / x) \<le> pi / 2" using arctan_ubound [of "y / x"] by simp
  moreover have "(0::real) \<le> pi / 2" by simp
  ultimately show ?thesis using assms unfolding atan2_def by (simp del: pi_half_ge_zero)
qed

lemma cos_sum_diff:
  "cos (u + v) * cos (u - v) = (cos u)\<^sup>2 - (sin v)\<^sup>2" for u v :: real
proof -
  have "cos (u + v) * cos (u - v) = (cos u)\<^sup>2 * (cos v)\<^sup>2 - (sin u)\<^sup>2 * (sin v)\<^sup>2"
    unfolding cos_add cos_diff by (simp add: algebra_simps power2_eq_square)
  also have "\<dots> = (cos u)\<^sup>2 * (1 - (sin v)\<^sup>2) - (1 - (cos u)\<^sup>2) * (sin v)\<^sup>2"
    by (simp only: cos_squared_eq [of v] sin_squared_eq [of u])
  also have "\<dots> = (cos u)\<^sup>2 - (sin v)\<^sup>2"
    by (simp add: algebra_simps)
  finally show ?thesis .
qed

lemma cos_mult_cos:
  "cos x * cos y = (cos ((x + y) / 2))\<^sup>2 - (sin ((x - y) / 2))\<^sup>2" for x y :: real
proof -
  have xy: "(x + y) / 2 + (x - y) / 2 = x" "(x + y) / 2 - (x - y) / 2 = y"
    by (simp_all add: field_simps)
  show ?thesis
    using cos_sum_diff [of "(x + y) / 2" "(x - y) / 2"] by (simp only: xy)
qed

lemma haversine_a_unfold:
  "haversine_a lat lon tLat tLon =
     sin ((tLat - lat) * pi / 180 / 2) * sin ((tLat - lat) * pi / 180 / 2) +
     cos (lat * pi / 180) * cos (tLat * pi / 180) *
     sin ((tLon - lon) * pi / 180 / 2) * sin ((tLon - lon) * pi / 180 / 2)"
  by (simp only: haversine_a_def Let_def)

lemma haversine_a_range:
  "0 \<le> haversine_a lat lon tLat tLon \<and> haversine_a lat lon tLat tLon \<le> 1"
proof -
  define p where "p = lat * pi / 180"
  define q where "q = tLat * pi / 180"
  define D where "D = (tLat - lat) * pi / 180 / 2"
  define E where "E = (tLon - lon) * pi / 180 / 2"
  define s where "s = (sin E)\<^sup>2"
  define d where "d = (sin D)\<^sup>2"
  define m where "m = (cos ((p + q) / 2))\<^sup>2"
  have s: "0 \<le> s" "s \<le> 1" by (simp_all add: s_def abs_square_le_1)
  have d: "0 \<le> d" "d \<le> 1" by (simp_all add: d_def abs_square_le_1)
  have m: "0 \<le> m" "m \<le> 1" by (simp_all add: m_def abs_square_le_1)
  have "(p - q) / 2 = - D" by (simp add: p_def q_def D_def algebra_simps diff_divide_distrib)
  then have "(sin ((p - q) / 2))\<^sup>2 = d" by (simp add: d_def)
  then have cc: "cos p * cos q = m - d"
    by (simp only: cos_mult_cos m_def)
  have "haversine_a lat lon tLat tLon = sin D * sin D + cos p * cos q * sin E * sin E"
    by (simp only: haversine_a_unfold p_def q_def D_def E_def)
  also have "\<dots> = d + (m - d) * s"
    by (simp only: cc d_def s_def power2_eq_square mult.assoc)
  also have "\<dots> = d * (1 - s) + m * s" by (simp add: algebra_simps)
  finally have a: "haversine_a lat lon tLat tLon = d * (1 - s) + m * s" .
  have "0 \<le> d * (1 - s) + m * s" using s d m by simp
  moreover have "d * (1 - s) + m * s \<le> 1 * (1 - s) + 1 * s"
    using s d m by (intro add_mono mult_right_mono) simp_all
  ultimately show ?thesis by (simp add: a)
qed

lemma haversine_bounds: "0 \<le> haversine lat lon tLat tLon \<and> haversine lat lon tLat tLon \<le> 6371 * pi"
proof -
  let ?a = "haversine_a lat lon tLat tLon"
  have r: "0 \<le> sqrt ?a" "0 \<le> sqrt (1 - ?a)"
    using haversine_a_range [of lat lon tLat tLon] by simp_all
  have "0 \<le> atan2 (sqrt ?a) (sqrt (1 - ?a))"
    using r(1) by (rule atan2_nonneg)
  moreover have "atan2 (sqrt ?a) (sqrt (1 - ?a)) \<le> pi / 2"
    using r by (rule atan2_quadrant)
  ultimately have "0 \<le> 6371 * (2 * atan2 (sqrt ?a) (sqrt (1 - ?a)))"
    "6371 * (2 * atan2 (sqrt ?a) (sqrt (1 - ?a))) \<le> 6371 * pi"
    by simp_all
  then show ?thesis by (simp add: haversine_def Let_def)
qed

lemma js_rem_360: assumes "180 < v" "v \<le> 540" shows "0 \<le> js_rem v 360 \<and> js_rem v 360 < 360"
proof (cases "v < 360")
  case True
  then have "\<lfloor>v / 360\<rfloor> = 0" using assms by (simp add: floor_eq_iff)
  then show ?thesis using assms True by (simp add: js_rem_def)
next
  case False
  then have "\<lfloor>v / 360\<rfloor> = 1" using assms by (simp add: floor_eq_iff)
  then show ?thesis using assms False by (simp add: js_rem_def)
qed


section \<open>Numeric bounds for the anchor position\<close>

text \<open>
  Bounds on \<open>\<pi>\<close>, on the sine of a small angle and on the cosine near 37.5 degrees,
  precise enough to place the distance from \<open>(37.5, 127)\<close> between 6.5 and 7.5.
\<close>

lemma sin_lower: "0 \<le> x \<Longrightarrow> x - x ^ 3 / 6 \<le> sin x" for x :: real
proof -
  assume x: "0 \<le> x"
  have "\<bar>sin x - (\<Sum>m<3. sin_coeff m * x ^ m)\<bar> \<le> inverse (fact 3) * \<bar>x\<bar> ^ 3"
    by (rule Maclaurin_sin_bound)
  moreover have "(\<Sum>m<3. sin_coeff m * x ^ m) = x"
    by (simp add: sin_coeff_def eval_nat_numeral)
  moreover have "inverse (fact 3) * \<bar>x\<bar> ^ 3 = x ^ 3 / 6"
    using x by (simp add: eval_nat_numeral)
  ultimately show ?thesis by linarith
qed

lemma pi_ge_3: "3 \<le> pi"
proof -
  have "sin (pi / 6) \<le> pi / 6" by (rule sin_x_le_x) simp
  then show ?thesis by (simp add: sin_30)
qed

lemma pi_le_315: "pi \<le> 3.15"
proof (rule ccontr)
  assume "\<not> pi \<le> 3.15"
  define x where "x = pi / 6"
  define c :: real where "c = 0.525"
  have xc: "c < x" using \<open>\<not> pi \<le> 3.15\<close> by (simp add: x_def c_def)
  have x1: "x \<le> 1" using pi_less_4 by (simp add: x_def)
  have x0: "0 \<le> x" by (simp add: x_def)
  have c0: "0 \<le> c" "c \<le> 1" by (simp_all add: c_def)
  have "x * x \<le> 1 * 1" using x0 x1 by (intro mult_mono) simp_all
  moreover have "x * c \<le> 1 * 1" using x0 x1 c0 by (intro mult_mono) simp_all
  moreover have "c * c \<le> 1 * 1" using c0 by (intro mult_mono) simp_all
  ultimately have "0 \<le> 1 - (x * x + x * c + c * c) / 6" by simp
  then have "0 \<le> (x - c) * (1 - (x * x + x * c + c * c) / 6)"
    using xc by (intro mult_nonneg_nonneg) simp_all
  also have "\<dots> = (x - x ^ 3 / 6) - (c - c ^ 3 / 6)"
    by (simp add: field_simps power3_eq_cube)
  finally have "c - c ^ 3 / 6 \<le> x - x ^ 3 / 6" by simp
  also have "\<dots> \<le> sin x" using x0 by (rule sin_lower)
  also have "\<dots> = 1 / 2" by (simp add: x_def sin_30)
  finally show False by (simp add: c_def power3_eq_cube)
qed

lemma arctan_le_self: "0 \<le> t \<Longrightarrow> arctan t \<le> t" for t :: real
proof -
  assume t: "0 \<le> t"
  let ?f = "\<lambda>x. x - arctan x"
  have "\<And>u. \<lbrakk>0 \<le> u; u \<le> t\<rbrakk> \<Longrightarrow> \<exists>y. (?f has_real_derivative y) (at u) \<and> 0 \<le> y"
  proof -
    fix u :: real
    have "(?f has_real_derivative 1 - inverse (1 + u\<^sup>2)) (at u)"
      by (auto intro!: derivative_eq_intros)
    moreover have "inverse (1 + u\<^sup>2) \<le> inverse 1"
      by (rule le_imp_inverse_le) simp_all
    then have "0 \<le> 1 - inverse (1 + u\<^sup>2)" by simp
    ultimately show "\<exists>y. (?f has_real_derivative y) (at u) \<and> 0 \<le> y" by blast
  qed
  then have "?f 0 \<le> ?f t"
    by (rule DERIV_nonneg_imp_nondecreasing [OF t])
  then show ?thesis by simp
qed

lemma arctan_ge_sin: "0 \<le> t \<Longrightarrow> t / sqrt (1 + t\<^sup>2) \<le> arctan t" for t :: real
proof -
  assume t: "0 \<le> t"
  have "sin (arctan t) \<le> arctan t" by (rule sin_x_le_x) (simp add: t)
  then show ?thesis by (simp add: sin_arctan)
qed


lemma sin_small:
  fixes x :: real
  assumes "0 \<le> x" and "x \<le> 1 / 100"
  shows "x * (59999 / 60000) \<le> sin x \<and> sin x \<le> x"
proof -
  have "x * x \<le> (1 / 100) * (1 / 100)" using assms by (intro mult_mono) simp_all
  then have "x * (x * x) \<le> x * (1 / 10000)" using assms(1) by (intro mult_left_mono) simp_all
  then have "x ^ 3 / 6 \<le> x / 60000" by (simp add: power3_eq_cube)
  moreover have "x - x ^ 3 / 6 \<le> sin x" using assms(1) by (rule sin_lower)
  ultimately have "x * (59999 / 60000) \<le> sin x" by simp
  then show ?thesis using sin_x_le_x [OF assms(1)] by simp
qed

lemma cos_near_375:
  fixes x :: real
  assumes "0.625 \<le> x" and "x \<le> 0.66"
  shows "0.78 \<le> cos x \<and> cos x \<le> 0.82"
proof -
  define y where "y = x / 2"
  have y: "0.3125 \<le> y" "y \<le> 0.33" using assms by (simp_all add: y_def)
  have c: "cos x = 1 - 2 * (sin y)\<^sup>2"
    using cos_double_sin [of y] by (simp add: y_def)
  have "\<bar>sin y\<bar> \<le> \<bar>y\<bar>" by (rule abs_sin_x_le_abs_x)
  then have "(sin y)\<^sup>2 \<le> y\<^sup>2" by (simp only: abs_le_square_iff)
  also have "y\<^sup>2 \<le> 0.33\<^sup>2" using y by (intro power_mono) simp_all
  finally have up: "(sin y)\<^sup>2 \<le> 0.1089" by (simp add: power2_eq_square)
  have "y ^ 3 \<le> 0.33 ^ 3" using y by (intro power_mono) simp_all
  then have "y ^ 3 / 6 \<le> 0.006" by (simp add: power3_eq_cube)
  moreover have "y - y ^ 3 / 6 \<le> sin y" by (rule sin_lower) (use y in simp)
  ultimately have "0.3 \<le> sin y" using y by simp
  then have "0.3\<^sup>2 \<le> (sin y)\<^sup>2" by (intro power_mono) simp_all
  then have lo: "0.09 \<le> (sin y)\<^sup>2" by (simp add: power2_eq_square)
  show ?thesis using up lo by (simp add: c)
qed


lemma haversine_a_anchor:
  "0.000000271 \<le> haversine_a 37.5 127 bbLat bbLon \<and>
   haversine_a 37.5 127 bbLat bbLon \<le> 0.00000032"
proof -
  define x1 where "x1 = (bbLat - 37.5) * pi / 180 / 2"
  define x2 where "x2 = (bbLon - 127) * pi / 180 / 2"
  define p where "p = 37.5 * pi / 180"
  define q where "q = bbLat * pi / 180"
  have pi3: "3 \<le> pi" "pi \<le> 3.15" by (rule pi_ge_3, rule pi_le_315)
  have x1e: "x1 = 0.051447 / 360 * pi" by (simp add: x1_def bbLat_def)
  have x2e: "x2 = 0.047016 / 360 * pi" by (simp add: x2_def bbLon_def)
  have pe: "p = 37.5 / 180 * pi" by (simp add: p_def)
  have qe: "q = 37.551447 / 180 * pi" by (simp add: q_def bbLat_def)
  have x1b: "0.00042872 \<le> x1" "x1 \<le> 0.00045017" using pi3 by (simp_all add: x1e)
  have x2b: "0.00039179 \<le> x2" "x2 \<le> 0.0004114" using pi3 by (simp_all add: x2e)
  have pb: "0.625 \<le> p" "p \<le> 0.66" using pi3 by (simp_all add: pe)
  have qb: "0.625 \<le> q" "q \<le> 0.66" using pi3 by (simp_all add: qe)
  have s1: "0.000428 \<le> sin x1" "sin x1 \<le> 0.00045017"
    using sin_small [of x1] x1b by simp_all
  have s2: "0.000391 \<le> sin x2" "sin x2 \<le> 0.0004114"
    using sin_small [of x2] x2b by simp_all
  have cp: "0.78 \<le> cos p" "cos p \<le> 0.82" using cos_near_375 [OF pb] by simp_all
  have cq: "0.78 \<le> cos q" "cos q \<le> 0.82" using cos_near_375 [OF qb] by simp_all
  have a: "haversine_a 37.5 127 bbLat bbLon =
      sin x1 * sin x1 + cos p * cos q * sin x2 * sin x2"
    by (simp only: haversine_a_unfold x1_def x2_def p_def q_def)
  have l1: "0.000428 * 0.000428 \<le> sin x1 * sin x1"
    using s1 by (intro mult_mono) simp_all
  have l2: "0.78 * 0.78 \<le> cos p * cos q"
    using cp cq by (intro mult_mono) simp_all
  have n2: "0 \<le> cos p * cos q" using l2 by simp
  have l3: "0.78 * 0.78 * 0.000391 \<le> cos p * cos q * sin x2"
    by (rule mult_mono [OF l2 s2(1) n2]) simp
  have n3: "0 \<le> cos p * cos q * sin x2" using l3 by simp
  have l4: "0.78 * 0.78 * 0.000391 * 0.000391 \<le> cos p * cos q * sin x2 * sin x2"
    by (rule mult_mono [OF l3 s2(1) n3]) simp
  have u1: "sin x1 * sin x1 \<le> 0.00045017 * 0.00045017"
    using s1 by (intro mult_mono) simp_all
  have u2: "cos p * cos q \<le> 0.82 * 0.82"
    using cp cq by (intro mult_mono) simp_all
  have ns: "0 \<le> sin x2" using s2(1) by simp
  have u3: "cos p * cos q * sin x2 \<le> 0.82 * 0.82 * 0.0004114"
    by (rule mult_mono [OF u2 s2(2) _ ns]) simp
  have u4: "cos p * cos q * sin x2 * sin x2 \<le> 0.82 * 0.82 * 0.0004114 * 0.0004114"
    by (rule mult_mono [OF u3 s2(2) _ ns]) simp
  show ?thesis unfolding a using l1 l4 u1 u4 by simp
qed


lemma haversine_arctan:
  assumes "haversine_a lat lon tLat tLon < 1"
  shows "haversine lat lon tLat tLon =
           6371 * (2 * arctan (sqrt (haversine_a lat lon tLat tLon) /
                               sqrt (1 - haversine_a lat lon tLat tLon)))"
proof -
  have "0 < sqrt (1 - haversine_a lat lon tLat tLon)" using assms by simp
  then have "atan2 (sqrt (haversine_a lat lon tLat tLon))
                   (sqrt (1 - haversine_a lat lon tLat tLon)) =
             arctan (sqrt (haversine_a lat lon tLat tLon) /
                     sqrt (1 - haversine_a lat lon tLat tLon))"
    by (simp only: atan2_def if_True)
  then show ?thesis by (simp only: haversine_def Let_def)
qed

lemma haversine_anchor:
  "6.5 \<le> haversine 37.5 127 bbLat bbLon \<and> haversine 37.5 127 bbLat bbLon < 7.5"
proof -
  define a where "a = haversine_a 37.5 127 bbLat bbLon"
  define t where "t = sqrt a / sqrt (1 - a)"
  have a: "0.000000271 \<le> a" "a \<le> 0.00000032"
    using haversine_a_anchor by (simp_all add: a_def)
  have q: "0 < sqrt (1 - a)" using a by simp
  have "a < 1" using a by simp
  then have h: "haversine 37.5 127 bbLat bbLon = 6371 * (2 * arctan t)"
    unfolding a_def t_def by (rule haversine_arctan)
  have t0: "0 \<le> t" using a by (simp add: t_def)
  have "0.00052\<^sup>2 \<le> a" using a by (simp add: power2_eq_square)
  then have r: "0.00052 \<le> sqrt a" by (rule real_le_rsqrt)
  have "sqrt (1 - a) \<le> 1" using a by simp
  then have "sqrt a / 1 \<le> sqrt a / sqrt (1 - a)"
    using q a by (intro divide_left_mono) simp_all
  then have "sqrt a \<le> t" by (simp only: t_def div_by_1)
  with r have tl: "0.00052 \<le> t" by (rule order_trans)
  have "(0.00052::real) / sqrt (1 + 0.00052\<^sup>2) \<le> arctan 0.00052"
    by (rule arctan_ge_sin) simp
  moreover have "sqrt (1 + 0.00052\<^sup>2) \<le> (1.001::real)"
    by (rule real_le_lsqrt) (simp_all add: power2_eq_square)
  then have "(0.00052::real) / 1.001 \<le> 0.00052 / sqrt (1 + 0.00052\<^sup>2)"
    by (intro divide_left_mono) (simp_all add: power2_eq_square)
  moreover have "arctan 0.00052 \<le> arctan t" using tl by (simp only: arctan_le_iff)
  ultimately have lo: "0.00052 / 1.001 \<le> arctan t" by linarith
  have "a / (1 - a) \<le> 0.00000032 / (1 - 0.00000032)"
    using a by (intro frac_le) simp_all
  also have "\<dots> \<le> 0.00057\<^sup>2" by (simp add: power2_eq_square)
  finally have "sqrt (a / (1 - a)) \<le> 0.00057"
    by (intro real_le_lsqrt) simp_all
  then have "t \<le> 0.00057" by (simp add: t_def real_sqrt_divide)
  moreover have "arctan t \<le> t" using t0 by (rule arctan_le_self)
  ultimately have hi: "arctan t \<le> 0.00057" by linarith
  show ?thesis unfolding h using lo hi by simp
qed

section \<open>Facts about the handlers\<close>

lemma heading_alpha_cases:
  "heading_alpha e =
     (if absolute e \<and> alpha e \<noteq> None then alpha e
      else if truthy (webkitCompassHeading e) then webkitCompassHeading e
      else None)"
  by (simp add: heading_alpha_def)

lemma updateOrientation_degraded:
  "heading_alpha e = None \<Longrightarrow>
     updateOrientation e s = s\<lparr>compassAvailable := False, listening := False\<rparr>"
  by (simp add: updateOrientation_def)

lemma updateOrientation_no_position:
  "heading_alpha e = Some a \<Longrightarrow> u_lat s = None \<or> u_lon s = None \<Longrightarrow>
     updateOrientation e s = s"
  by (auto simp: updateOrientation_def split: option.splits)

lemma updateOrientation_rotate:
  "heading_alpha e = Some a \<Longrightarrow> u_lat s = Some lat \<Longrightarrow> u_lon s = Some lon \<Longrightarrow>
     updateOrientation e s =
       s\<lparr>compassAvailable := True,
         arrowRotation := relativeBearing (bearingFromNorth lat lon) a\<rparr>"
  by (simp add: updateOrientation_def)

lemma dispatchAll_detached:
  "\<not> listening s \<Longrightarrow> dispatchAll h es s = s"
  by (induction es) (simp_all add: dispatchOrientation_def)

lemma onPosition_eq:
  "onPosition la lo s =
     s\<lparr>u_lat := Some la, u_lon := Some lo,
       distance := toFixed0 (haversine la lo bbLat bbLon) @ '' km''\<rparr>"
  by (simp add: onPosition_def updateDistance_def)

section \<open>The claims\<close>

text \<open>
  C1, as stated, fails: a sample that carries a non-zero compass heading and is also
  absolute with a non-null alpha makes the handler use alpha, because the assignment
  from \<^verbatim>\<open>event.alpha\<close> comes second and overwrites the first.
\<close>

theorem compass_heading_overwritten_by_alpha:
  "truthy (webkitCompassHeading \<lparr>absolute = True, alpha = Some 10, webkitCompassHeading = Some 90\<rparr>) \<and>
   heading_alpha \<lparr>absolute = True, alpha = Some 10, webkitCompassHeading = Some 90\<rparr> = Some 10 \<and>
   heading_alpha \<lparr>absolute = True, alpha = Some 10, webkitCompassHeading = Some 90\<rparr> \<noteq>
     webkitCompassHeading \<lparr>absolute = True, alpha = Some 10, webkitCompassHeading = Some 90\<rparr>"
  by (simp add: heading_alpha_def truthy_def)

text \<open>
  C1, amended: the heading used for the rotation is the alpha field whenever the sample
  is absolute with a non-null alpha; the compass-heading field is used only when it is
  present and non-zero and the sample is not absolute with a non-null alpha; otherwise
  there is no heading. With a stored position, the rotation of an absolute sample is
  computed from its alpha.
\<close>

theorem heading_alpha_precedence:
  "heading_alpha e =
     (if absolute e \<and> alpha e \<noteq> None then alpha e
      else if truthy (webkitCompassHeading e) then webkitCompassHeading e
      else None) \<and>
   (absolute e \<longrightarrow> alpha e = Some a \<longrightarrow> u_lat s = Some lat \<longrightarrow> u_lon s = Some lon \<longrightarrow>
      arrowRotation (updateOrientation e s) = relativeBearing (bearingFromNorth lat lon) a)"
  by (simp add: heading_alpha_cases updateOrientation_def)

theorem heading_alpha_precedence_witness:
  "heading_alpha \<lparr>absolute = False, alpha = Some 10, webkitCompassHeading = Some 90\<rparr> = Some 90 \<and>
   arrowRotation (updateOrientation
       \<lparr>absolute = True, alpha = Some 10, webkitCompassHeading = Some 90\<rparr>
       (init_state\<lparr>u_lat := Some 1, u_lon := Some 2\<rparr>)) =
     relativeBearing (bearingFromNorth 1 2) 10"
  using heading_alpha_precedence
      [of "\<lparr>absolute = False, alpha = Some 10, webkitCompassHeading = Some 90\<rparr>" 10
          init_state 1 2]
    heading_alpha_precedence
      [of "\<lparr>absolute = True, alpha = Some 10, webkitCompassHeading = Some 90\<rparr>" 10
          "init_state\<lparr>u_lat := Some 1, u_lon := Some 2\<rparr>" 1 2]
  by (simp add: truthy_def)

text \<open>
  C2: when the compass-heading field is exactly 0 its truthiness test fails and the
  compass value is not used: the heading is the alpha field if the sample is absolute
  with a non-null alpha, and otherwise the sample is degraded (availability off,
  listener removed, nothing else changed).
\<close>

theorem compass_heading_zero_falls_through:
  assumes "webkitCompassHeading e = Some 0"
  shows "heading_alpha e = (if absolute e \<and> alpha e \<noteq> None then alpha e else None) \<and>
         (\<not> (absolute e \<and> alpha e \<noteq> None) \<longrightarrow>
            updateOrientation e s = s\<lparr>compassAvailable := False, listening := False\<rparr>)"
  using assms by (simp add: heading_alpha_cases updateOrientation_def truthy_def)

theorem compass_heading_zero_falls_through_witness:
  "webkitCompassHeading \<lparr>absolute = False, alpha = Some 10, webkitCompassHeading = Some 0\<rparr> = Some 0 \<and>
   heading_alpha \<lparr>absolute = False, alpha = Some 10, webkitCompassHeading = Some 0\<rparr> = None \<and>
   updateOrientation \<lparr>absolute = False, alpha = Some 10, webkitCompassHeading = Some 0\<rparr>
       (subscribe init_state) =
     (subscribe init_state)\<lparr>compassAvailable := False, listening := False\<rparr>"
  using compass_heading_zero_falls_through
      [of "\<lparr>absolute = False, alpha = Some 10, webkitCompassHeading = Some 0\<rparr>"
          "subscribe init_state"]
  by simp

text \<open>
  C3: for a bearing \<open>b\<close> and a heading \<open>h\<close> in \<open>[0, 360)\<close> the relative rotation lies
  in \<open>[-180, 180]\<close>, and adding the heading back gives the bearing modulo 360 (exactly,
  in real arithmetic).
\<close>

theorem relativeBearing_normalized: assumes "0 \<le> b" "b < 360" "0 \<le> h" "h < 360"
  shows "- 180 \<le> relativeBearing b h \<and> relativeBearing b h \<le> 180 \<and> mod360 (relativeBearing b h + h) = b"
proof -
  have fl: "\<lfloor>b / 360\<rfloor> = 0" using assms by (simp add: floor_eq_iff)
  have m0: "mod360 b = b" by (simp add: mod360_def fl)
  have mm: "mod360 (b - 360) = b"
  proof -
    have "\<lfloor>(b - 360) / 360\<rfloor> = - 1" using assms by (simp add: floor_eq_iff)
    then show ?thesis by (simp add: mod360_def)
  qed
  have mp: "mod360 (b + 360) = b"
  proof -
    have "\<lfloor>(b + 360) / 360\<rfloor> = 1" using assms by (simp add: floor_eq_iff)
    then show ?thesis by (simp add: mod360_def)
  qed
  show ?thesis using assms m0 mm mp
    by (auto simp: relativeBearing_def Let_def algebra_simps)
qed

theorem relativeBearing_normalized_witness:
  "(0::real) \<le> 350 \<and> (350::real) < 360 \<and> (0::real) \<le> 10 \<and> (10::real) < 360 \<and>
   - 180 \<le> relativeBearing 350 10 \<and> relativeBearing 350 10 \<le> 180 \<and>
   mod360 (relativeBearing 350 10 + 10) = 350 \<and> relativeBearing 350 10 = - 20"
  using relativeBearing_normalized [of 350 10] by (simp add: relativeBearing_def)

text \<open>
  C4: a degraded sample (no usable compass heading, and not absolute with a non-null
  alpha) turns \<open>compassAvailable\<close> off, removes the listener, so that no later sample
  dispatched to it is processed, and leaves the distance text as it was. This holds for
  the handler of either component file.
\<close>

theorem degraded_sample_detaches:
  assumes "\<not> truthy (webkitCompassHeading e)" and "\<not> (absolute e \<and> alpha e \<noteq> None)"
    and "h = updateOrientation \<or> h = updateOrientation_alpha"
  shows "\<not> compassAvailable (h e s) \<and> \<not> listening (h e s) \<and>
         distance (h e s) = distance s \<and>
         (\<forall>es. dispatchAll h es (h e s) = h e s)"
proof -
  have "h e s = s\<lparr>compassAvailable := False, listening := False\<rparr>"
    using assms
    by (auto simp: heading_alpha_cases updateOrientation_def updateOrientation_alpha_def)
  then show ?thesis by (simp add: dispatchAll_detached)
qed

theorem degraded_sample_detaches_witness:
  "\<not> truthy (webkitCompassHeading \<lparr>absolute = False, alpha = None, webkitCompassHeading = None\<rparr>) \<and>
   \<not> listening (updateOrientation
        \<lparr>absolute = False, alpha = None, webkitCompassHeading = None\<rparr>
        (subscribe (onPosition 1 2 init_state))) \<and>
   dispatchAll updateOrientation
       [\<lparr>absolute = True, alpha = Some 10, webkitCompassHeading = None\<rparr>]
       (updateOrientation \<lparr>absolute = False, alpha = None, webkitCompassHeading = None\<rparr>
          (subscribe (onPosition 1 2 init_state))) =
     updateOrientation \<lparr>absolute = False, alpha = None, webkitCompassHeading = None\<rparr>
       (subscribe (onPosition 1 2 init_state))"
  using degraded_sample_detaches
      [of "\<lparr>absolute = False, alpha = None, webkitCompassHeading = None\<rparr>"
          updateOrientation "subscribe (onPosition 1 2 init_state)"]
  by (simp add: truthy_def del: dispatchAll.simps)

text \<open>
  C5: a valid heading sample that arrives while no position is stored leaves
  \<open>compassAvailable\<close> false and the rotation as it was; after a position sample, a
  valid heading sample sets \<open>compassAvailable\<close> and computes the rotation from the
  stored position and the heading.
\<close>

theorem heading_before_position:
  assumes "u_lat s = None \<or> u_lon s = None" and "\<not> compassAvailable s"
    and "heading_alpha e = Some h" and "heading_alpha e' = Some h'"
  shows "\<not> compassAvailable (updateOrientation e s) \<and>
         arrowRotation (updateOrientation e s) = arrowRotation s \<and>
         compassAvailable (updateOrientation e' (onPosition la lo (updateOrientation e s))) \<and>
         arrowRotation (updateOrientation e' (onPosition la lo (updateOrientation e s))) =
           relativeBearing (bearingFromNorth la lo) h'"
proof -
  have 1: "updateOrientation e s = s"
    using assms(1,3) by (rule updateOrientation_no_position [rotated])
  have 2: "updateOrientation e' (onPosition la lo s) =
      (onPosition la lo s)\<lparr>compassAvailable := True,
        arrowRotation := relativeBearing (bearingFromNorth la lo) h'\<rparr>"
    using assms(4) by (rule updateOrientation_rotate) (simp_all add: onPosition_eq)
  show ?thesis using assms(2) by (simp add: 1 2)
qed

theorem heading_before_position_witness:
  "(u_lat init_state = None \<or> u_lon init_state = None) \<and> \<not> compassAvailable init_state \<and>
   heading_alpha \<lparr>absolute = True, alpha = Some 10, webkitCompassHeading = None\<rparr> = Some 10 \<and>
   \<not> compassAvailable (updateOrientation
        \<lparr>absolute = True, alpha = Some 10, webkitCompassHeading = None\<rparr> init_state) \<and>
   compassAvailable (updateOrientation
        \<lparr>absolute = True, alpha = Some 10, webkitCompassHeading = None\<rparr>
        (onPosition 1 2 (updateOrientation
           \<lparr>absolute = True, alpha = Some 10, webkitCompassHeading = None\<rparr> init_state)))"
proof -
  have a: "heading_alpha \<lparr>absolute = True, alpha = Some 10, webkitCompassHeading = None\<rparr> = Some 10"
    by (simp add: heading_alpha_def)
  have b: "u_lat init_state = None \<or> u_lon init_state = None" "\<not> compassAvailable init_state"
    by (simp_all add: init_state_def)
  show ?thesis
    using heading_before_position [OF b a a, of 1 2] a b by simp
qed

text \<open>
  C8: the bearing from north, after adding 360 and taking the remainder by 360, lies in
  \<open>[0, 360)\<close> for every position.
\<close>

theorem bearingFromNorth_range: "0 \<le> bearingFromNorth lat lon \<and> bearingFromNorth lat lon < 360"
proof -
  define y where "y = sin ((bbLon - lon) * pi / 180) * cos (bbLat * pi / 180)"
  define x where "x = cos (lat * pi / 180) * sin (bbLat * pi / 180) -
     sin (lat * pi / 180) * cos (bbLat * pi / 180) * cos ((bbLon - lon) * pi / 180)"
  define b where "b = atan2 y x * 180 / pi"
  have "- pi < atan2 y x" "atan2 y x \<le> pi" using atan2_bounds [of y x] by simp_all
  then have "- 180 < b" "b \<le> 180"
    by (simp_all add: b_def field_simps)
  then have "180 < b + 360" "b + 360 \<le> 540" by simp_all
  then have "0 \<le> js_rem (b + 360) 360 \<and> js_rem (b + 360) 360 < 360" by (rule js_rem_360)
  then show ?thesis by (simp add: bearingFromNorth_def Let_def b_def x_def y_def)
qed


theorem bearingFromNorth_range_witness:
  "0 \<le> bearingFromNorth 37.5 127 \<and> bearingFromNorth 37.5 127 < 360"
  using bearingFromNorth_range [of "37.5" 127] by simp

text \<open>
  C9: a position sample changes the stored position and the distance text and nothing
  else; in particular the rotation and \<open>compassAvailable\<close> keep their values, whether
  or not a heading was received before.
\<close>

theorem position_sample_frame:
  "onPosition la lo s =
     s\<lparr>u_lat := Some la, u_lon := Some lo,
       distance := toFixed0 (haversine la lo bbLat bbLon) @ '' km''\<rparr> \<and>
   arrowRotation (onPosition la lo s) = arrowRotation s \<and>
   compassAvailable (onPosition la lo s) = compassAvailable s"
  by (simp add: onPosition_eq)

theorem position_sample_frame_witness:
  "arrowRotation (onPosition 37.5 127 init_state) = 0 \<and>
   \<not> compassAvailable (onPosition 37.5 127 init_state) \<and>
   u_lat (onPosition 37.5 127 init_state) = Some 37.5"
  using position_sample_frame [of "37.5" 127 init_state] by (simp add: init_state_def)

text \<open>
  C10: initially \<open>compassAvailable\<close> is false, the rotation is 0 and the distance text
  is empty. The guard paths keep what they do not set: without a stored position
  \<open>updateDistance\<close> and a valid heading sample change nothing, and a degraded sample
  changes only \<open>compassAvailable\<close> and the listener registration.
\<close>

theorem initial_state_and_guard_paths:
  "\<not> compassAvailable init_state \<and> arrowRotation init_state = 0 \<and>
   distance init_state = [] \<and>
   (u_lat s = None \<or> u_lon s = None \<longrightarrow> updateDistance s = s) \<and>
   (heading_alpha e \<noteq> None \<and> (u_lat s = None \<or> u_lon s = None) \<longrightarrow>
      updateOrientation e s = s) \<and>
   (heading_alpha e = None \<longrightarrow>
      updateOrientation e s = s\<lparr>compassAvailable := False, listening := False\<rparr> \<and>
      arrowRotation (updateOrientation e s) = arrowRotation s \<and>
      distance (updateOrientation e s) = distance s)"
  by (auto simp: init_state_def updateDistance_def updateOrientation_def
      split: option.splits)

theorem initial_state_and_guard_paths_witness:
  "updateDistance init_state = init_state \<and>
   updateOrientation \<lparr>absolute = True, alpha = Some 10, webkitCompassHeading = None\<rparr>
     init_state = init_state \<and>
   arrowRotation (updateOrientation
     \<lparr>absolute = False, alpha = None, webkitCompassHeading = None\<rparr> init_state) = 0 \<and>
   distance (updateOrientation
     \<lparr>absolute = False, alpha = None, webkitCompassHeading = None\<rparr> init_state) = []"
  using initial_state_and_guard_paths
      [of init_state "\<lparr>absolute = True, alpha = Some 10, webkitCompassHeading = None\<rparr>"]
    initial_state_and_guard_paths
      [of init_state "\<lparr>absolute = False, alpha = None, webkitCompassHeading = None\<rparr>"]
  by (simp add: init_state_def heading_alpha_def truthy_def)

text \<open>
  C6: for the observer at \<open>(37.5, 127)\<close> the distance to the target, printed with
  \<^verbatim>\<open>toFixed(0)\<close>, is 7, and the distance text after that position sample is
  \<^verbatim>\<open>7 km\<close> (in real arithmetic the value lies between 6.5 and 7.5).
\<close>

theorem anchor_distance_is_7_km:
  "toFixed0 (haversine 37.5 127 bbLat bbLon) = ''7'' \<and>
   distance (onPosition 37.5 127 s) = ''7 km''"
proof -
  define d where "d = haversine 37.5 127 bbLat bbLon"
  have d: "6.5 \<le> d" "d < 7.5" using haversine_anchor by (simp_all add: d_def)
  then have "\<lfloor>\<bar>d\<bar> + 1 / 2\<rfloor> = 7" by (simp add: floor_eq_iff)
  then have "toFixed0 d = ''7''" using d by (simp add: toFixed0_def)
  then show ?thesis unfolding d_def by (simp add: onPosition_eq)
qed

theorem anchor_distance_is_7_km_witness:
  "distance (onPosition 37.5 127 init_state) = ''7 km''"
  using anchor_distance_is_7_km [of init_state] by simp

end
